theory Spec2Isabelle
  imports Main
begin

text \<open>
  A shallow embedding of the parts of the \<open>oidc\<close> package of \<open>cap\<close> that deal with the
  per-request state (\<open>NewState\<close>, \<open>IsExpired\<close>, \<open>ImplicitFlow\<close>), the client secret, the
  provider configuration (\<open>Validate\<close>, \<open>NewConfig\<close>) and three checks of the provider
  (\<open>validRedirect\<close>, the audience rule of \<open>VerifyIDToken\<close>, the preconditions of
  \<open>Exchange\<close>), followed by the properties proved of them.
\<close>

section \<open>Errors\<close>

text \<open>
  The package reports failures as Go \<open>error\<close> values. A sentinel (\<open>ErrInvalidParameter\<close>,
  \<open>ErrNilParameter\<close>, ...) is a package-level value compared by identity;
  \<open>fmt.Errorf\<close> with a \<open>%w\<close> verb whose operand is a non-nil error yields a wrapper holding
  the formatted text and the operand; any other error (\<open>errors.New\<close>, an error of a library,
  \<open>fmt.Errorf\<close> whose \<open>%w\<close> operand is nil or missing) carries text only.
  In a \<open>Wrapped\<close> value the string is the formatted text in front of the \<open>%w\<close> verb.
  \<open>kind\<close> lists the sentinels the functions below return.
\<close>

datatype kind =
    ErrInvalidParameter
  | ErrNilParameter
  | ErrInvalidAudience
  | ErrInvalidAuthorizedParty
  | ErrUnauthorizedRedirectURI

datatype error =
    Sentinel kind
  | Wrapped string error
  | Plain string

text \<open>\<open>errors.Is\<close>: walk the chain of wrappers and compare each link with the target.\<close>

fun errors_Is :: "error \<Rightarrow> error \<Rightarrow> bool" where
  "errors_Is (Wrapped m e) t = (Wrapped m e = t \<or> errors_Is e t)"
| "errors_Is e t = (e = t)"

section \<open>Time\<close>

text \<open>
  A \<open>time.Time\<close> instant and a \<open>time.Duration\<close> are counts of nanoseconds, taken as
  unbounded integers: the range of \<open>time.Time\<close> (hundreds of billions of years) and the
  monotonic clock reading it may carry are not modelled. \<open>wall\<close> below always names the
  reading \<open>time.Now()\<close> gives at the moment of the call being modelled.
\<close>

type_synonym time = int
type_synonym duration = int

definition Second :: duration where
  "Second = 1000000000"

definition Add :: "time \<Rightarrow> duration \<Rightarrow> time" where
  "Add t d = t + d"

definition Before :: "time \<Rightarrow> time \<Rightarrow> bool" where
  "Before t u = (t < u)"

section \<open>Identifiers\<close>

text \<open>
  The entropy source is the list of random strings still to be handed out; an empty list is
  an exhausted source.
\<close>

type_synonym entropy = "string list"

text \<open>
  Modelled from the spec: \<open>NewID\<close> and \<open>WithPrefix\<close> are not among the source files. The
  spec (4.A) has \<open>NewID(prefix?)\<close> prepend the literal prefix, giving the labels \<open>st_...\<close>
  and \<open>n_...\<close>, and fail only when the entropy source is exhausted.
\<close>

fun NewID :: "string \<Rightarrow> entropy \<Rightarrow> (error + string) \<times> entropy" where
  "NewID prefix [] = (Inl (Plain ''NewID: unable to generate id: entropy source exhausted''), [])"
| "NewID prefix (r # rs) = (Inr (prefix @ ''_'' @ r), rs)"

section \<open>State options\<close>

text \<open>\<open>CodeVerifier\<close> is an interface; a variable of that type is nil or holds a verifier.\<close>

record CodeVerifier =
  verifier :: string
  challenge :: string
  challengeMethod :: string

record implicitFlow =
  withAccessToken :: bool

text \<open>
  \<open>withNowFunc\<close> is a \<open>func() time.Time\<close> or nil; the function is given the wall-clock
  reading of the moment it is called, so that a fixed clock is \<open>\<lambda>_. t\<close> and a shifted one
  \<open>\<lambda>w. w + d\<close>.
\<close>

record stOptions =
  withNowFunc :: "(time \<Rightarrow> time) option"
  withScopes :: "string list"
  withAudiences :: "string list"
  withImplicitFlow :: "implicitFlow option"
  withVerifier :: "CodeVerifier option"

definition stDefaults :: stOptions where
  "stDefaults = \<lparr>withNowFunc = None, withScopes = [], withAudiences = [],
     withImplicitFlow = None, withVerifier = None\<rparr>"

text \<open>A value of type \<open>interface{}\<close>, as far as the type switch \<open>case bool\<close> tells them apart.\<close>

datatype iface = IBool bool | IInt int | IString string | INil

text \<open>
  An \<open>Option\<close> is a closure over the option struct. The datatype names the closures a caller
  of \<open>NewState\<close> can build: \<open>WithImplicitFlow\<close> and \<open>WithPKCE\<close> as the source defines them,
  and \<open>WithNow\<close>, \<open>WithScopes\<close> and \<open>WithAudiences\<close>, which the doc comment of \<open>NewState\<close>
  lists and which set the field of \<open>stOptions\<close> named after them. \<open>OtherOption\<close> is an
  option of another struct, whose type assertion \<open>o.(*stOptions)\<close> fails, so that it
  changes nothing. \<open>ApplyOpts\<close> applies the options in the order given.
\<close>

datatype Option =
    WithNow "time \<Rightarrow> time"
  | WithScopes "string list"
  | WithAudiences "string list"
  | WithImplicitFlow "iface list"
  | WithPKCE "CodeVerifier option"
  | OtherOption

text \<open>The loop of \<open>WithImplicitFlow\<close> over its arguments, the flag as accumulator.\<close>

fun scanArgs :: "bool \<Rightarrow> iface list \<Rightarrow> bool" where
  "scanArgs withoutAccessToken [] = withoutAccessToken"
| "scanArgs withoutAccessToken (arg # args) =
     scanArgs (case arg of IBool b \<Rightarrow> (if b then True else withoutAccessToken)
                         | _ \<Rightarrow> withoutAccessToken) args"

fun applyOpt :: "Option \<Rightarrow> stOptions \<Rightarrow> stOptions" where
  "applyOpt (WithNow f) opts = opts\<lparr>withNowFunc := Some f\<rparr>"
| "applyOpt (WithScopes s) opts = opts\<lparr>withScopes := s\<rparr>"
| "applyOpt (WithAudiences a) opts = opts\<lparr>withAudiences := a\<rparr>"
| "applyOpt (WithImplicitFlow args) opts =
     opts\<lparr>withImplicitFlow := Some \<lparr>withAccessToken = scanArgs False args\<rparr>\<rparr>"
| "applyOpt (WithPKCE v) opts = opts\<lparr>withVerifier := v\<rparr>"
| "applyOpt OtherOption opts = opts"

fun ApplyOpts :: "stOptions \<Rightarrow> Option list \<Rightarrow> stOptions" where
  "ApplyOpts opts [] = opts"
| "ApplyOpts opts (x # xs) = ApplyOpts (applyOpt x opts) xs"

definition getStOpts :: "Option list \<Rightarrow> stOptions" where
  "getStOpts opt = ApplyOpts stDefaults opt"

section \<open>State\<close>

text \<open>
  The struct \<open>St\<close>. Its fields \<open>id\<close> and \<open>withVerifier\<close> are \<open>idSt\<close> and
  \<open>withVerifierSt\<close> here: \<open>id\<close> is the identity function of HOL, and \<open>withVerifier\<close> is
  already the field of \<open>stOptions\<close>.
\<close>

record St =
  idSt :: string
  nonce :: string
  expiration :: time
  redirectURL :: string
  scopes :: "string list"
  audiences :: "string list"
  nowFunc :: "(time \<Rightarrow> time) option"
  withImplicit :: "implicitFlow option"
  withVerifierSt :: "CodeVerifier option"

definition now :: "St \<Rightarrow> time \<Rightarrow> time" where
  "now s wall = (case nowFunc s of Some f \<Rightarrow> f wall | None \<Rightarrow> wall)"

text \<open>
  \<open>NewState\<close>, with the entropy source and the wall clock as further inputs. The checks are in
  the order of the source: redirect URL, the two identifiers, \<open>expireIn\<close>, the two flows.
\<close>

definition NewState :: "duration \<Rightarrow> string \<Rightarrow> Option list \<Rightarrow> entropy \<Rightarrow> time \<Rightarrow> error + St" where
  "NewState expireIn redirect opt ent wall =
    (let opts = getStOpts opt in
     if redirect = [] then Inl (Wrapped ''oidc.NewState: redirect URL is empty: '' (Sentinel ErrInvalidParameter))
     else case NewID ''n'' ent of
       (Inl err, _) \<Rightarrow> Inl (Wrapped ''oidc.NewState: unable to generate a state's nonce: '' err)
     | (Inr nonce', ent') \<Rightarrow>
        (case NewID ''st'' ent' of
           (Inl err, _) \<Rightarrow> Inl (Wrapped ''oidc.NewState: unable to generate a state's id: '' err)
         | (Inr id', _) \<Rightarrow>
            if expireIn = 0 \<or> expireIn < 0
            then Inl (Wrapped ''oidc.NewState: expireIn not greater than zero: '' (Sentinel ErrInvalidParameter))
            else if withVerifier opts \<noteq> None \<and> withImplicitFlow opts \<noteq> None
            then Inl (Wrapped ''oidc.NewState: requested both implicit flow and authorization code with PKCE: ''
                        (Sentinel ErrInvalidParameter))
            else
              (let s = \<lparr>idSt = id', nonce = nonce', expiration = 0, redirectURL = redirect,
                        scopes = withScopes opts, audiences = withAudiences opts,
                        nowFunc = withNowFunc opts, withImplicit = withImplicitFlow opts,
                        withVerifierSt = withVerifier opts\<rparr>
               in Inr (s\<lparr>expiration := Add (now s wall) expireIn\<rparr>))))"

definition ImplicitFlow :: "St \<Rightarrow> bool \<times> bool" where
  "ImplicitFlow s =
    (case withImplicit s of
       None \<Rightarrow> (False, False)
     | Some f \<Rightarrow> (if withAccessToken f then (True, True) else (True, False)))"

definition StateExpirySkew :: duration where
  "StateExpirySkew = 1 * Second"

text \<open>\<open>IsExpired\<close> reads \<open>time.Now()\<close>, not the state's \<open>now()\<close>.\<close>

definition IsExpired :: "St \<Rightarrow> time \<Rightarrow> bool" where
  "IsExpired s wall = Before (expiration s) (Add wall StateExpirySkew)"


section \<open>Client secret\<close>

type_synonym ClientSecret = string

definition RedactedClientSecret :: string where
  "RedactedClientSecret = ''[REDACTED: client secret]''"

definition ClientSecret_String :: "ClientSecret \<Rightarrow> string" where
  "ClientSecret_String t = RedactedClientSecret"

text \<open>
  \<open>json.Marshal\<close> of a Go string: the text between double quotes, with the quote and the
  backslash escaped by a backslash, newline, carriage return and tab as \<open>\n\<close>, \<open>\r\<close>,
  \<open>\t\<close>, and the other control characters and \<open><\<close>, \<open>>\<close>, \<open>&\<close> as \<open>\u00XX\<close>. Bytes
  from 0x80 on are copied, as \<open>json.Marshal\<close> does for well-formed UTF-8 other than U+2028
  and U+2029. Encoding a string never fails.
\<close>

definition hexDigit :: "nat \<Rightarrow> char" where
  "hexDigit n = ''0123456789abcdef'' ! (n mod 16)"

definition jsonEscapeChar :: "char \<Rightarrow> string" where
  "jsonEscapeChar c =
    (if c = CHR 0x22 \<or> c = CHR 0x5C then [CHR 0x5C, c]
     else if c = CHR 0x0A then [CHR 0x5C, CHR ''n'']
     else if c = CHR 0x0D then [CHR 0x5C, CHR ''r'']
     else if c = CHR 0x09 then [CHR 0x5C, CHR ''t'']
     else if (of_char c :: nat) < 32 \<or> c = CHR ''<'' \<or> c = CHR ''>'' \<or> c = CHR ''&''
       then [CHR 0x5C, CHR ''u'', CHR ''0'', CHR ''0'',
             hexDigit (of_char c div 16), hexDigit (of_char c mod 16)]
     else [c])"

definition json_Marshal :: "string \<Rightarrow> error + string" where
  "json_Marshal s = Inr ([CHR 0x22] @ concat (map jsonEscapeChar s) @ [CHR 0x22])"

definition ClientSecret_MarshalJSON :: "ClientSecret \<Rightarrow> error + string" where
  "ClientSecret_MarshalJSON t = json_Marshal RedactedClientSecret"

section \<open>URLs\<close>

text \<open>
  The fields of \<open>net/url.URL\<close> the package reads. \<open>Host\<close> is host or host:port.
\<close>

record URL =
  Scheme :: string
  Opaque :: string
  Host :: string
  Path :: string
  RawQuery :: string
  Fragment :: string

text \<open>\<open>cut c s\<close>: the text before the first \<open>c\<close>, and the text after it if there is one.\<close>

fun cut :: "char \<Rightarrow> string \<Rightarrow> string \<times> string option" where
  "cut c [] = ([], None)"
| "cut c (x # xs) =
     (if x = c then ([], Some xs) else (case cut c xs of (b, a) \<Rightarrow> (x # b, a)))"

definition isAlpha :: "char \<Rightarrow> bool" where
  "isAlpha c = ((97 \<le> (of_char c :: nat) \<and> (of_char c :: nat) \<le> 122) \<or>
                (65 \<le> (of_char c :: nat) \<and> (of_char c :: nat) \<le> 90))"

definition isDigit :: "char \<Rightarrow> bool" where
  "isDigit c = (48 \<le> (of_char c :: nat) \<and> (of_char c :: nat) \<le> 57)"

definition ishex :: "char \<Rightarrow> bool" where
  "ishex c = (isDigit c \<or> (97 \<le> (of_char c :: nat) \<and> (of_char c :: nat) \<le> 102) \<or>
              (65 \<le> (of_char c :: nat) \<and> (of_char c :: nat) \<le> 70))"

definition toLower :: "char \<Rightarrow> char" where
  "toLower c = (if 65 \<le> (of_char c :: nat) \<and> (of_char c :: nat) \<le> 90
                then char_of ((of_char c :: nat) + 32) else c)"

text \<open>
  \<open>getScheme\<close> of net/url: \<open>seen\<close> is the text already scanned, \<open>rawurl\<close> the whole input.
  The result is the scheme and the text after its colon, or no scheme and the whole input.
\<close>

fun getSchemeLoop :: "string \<Rightarrow> string \<Rightarrow> string \<Rightarrow> string + (string \<times> string)" where
  "getSchemeLoop rawurl seen [] = Inr ([], rawurl)"
| "getSchemeLoop rawurl seen (c # cs) =
     (if isAlpha c then getSchemeLoop rawurl (seen @ [c]) cs
      else if isDigit c \<or> c = CHR ''+'' \<or> c = CHR ''-'' \<or> c = CHR ''.''
        then (if seen = [] then Inr ([], rawurl) else getSchemeLoop rawurl (seen @ [c]) cs)
      else if c = CHR '':''
        then (if seen = [] then Inl ''missing protocol scheme'' else Inr (seen, cs))
      else Inr ([], rawurl))"

definition getScheme :: "string \<Rightarrow> string + (string \<times> string)" where
  "getScheme rawurl = getSchemeLoop rawurl [] rawurl"

text \<open>The well-formedness check of \<open>unescape\<close>: every percent sign is followed by two hex digits.\<close>

fun escapesOK :: "string \<Rightarrow> bool" where
  "escapesOK (c # a # b # rest) =
     (if c = CHR ''%'' then ishex a \<and> ishex b \<and> escapesOK rest else escapesOK (a # b # rest))"
| "escapesOK [c, a] = (c \<noteq> CHR ''%'' \<and> a \<noteq> CHR ''%'')"
| "escapesOK [c] = (c \<noteq> CHR ''%'')"
| "escapesOK [] = True"

definition stringContainsCTLByte :: "string \<Rightarrow> bool" where
  "stringContainsCTLByte s = (\<exists>c \<in> set s. (of_char c :: nat) < 32 \<or> (of_char c :: nat) = 127)"

definition afterLast :: "char \<Rightarrow> string \<Rightarrow> string" where
  "afterLast c s = rev (fst (cut c (rev s)))"

definition parseError :: "string \<Rightarrow> string \<Rightarrow> string" where
  "parseError rawurl msg = ''parse '' @ [CHR 0x22] @ rawurl @ [CHR 0x22] @ '': '' @ msg"

text \<open>
  A model of \<open>net/url.Parse\<close> and of the \<open>parse\<close> it calls, which belong to a library
  outside the repository: the fragment, the scheme (in lower case), the query, the authority
  and the path are split off in the order \<open>Parse\<close> does it, and the errors for a control character, a missing scheme, a colon in the
  first path segment and a malformed percent escape are raised. Percent escapes are checked
  but not decoded, user information is dropped from the authority, and the syntax of the
  host is not checked. The functions of the package below take the parser as a parameter;
  this model serves where a concrete URL has to be run.
\<close>

definition parse :: "string \<Rightarrow> string + URL" where
  "parse u =
    (if stringContainsCTLByte u then Inl ''net/url: invalid control character in URL''
     else if u = ''*'' then
       Inr \<lparr>Scheme = [], Opaque = [], Host = [], Path = ''*'', RawQuery = [], Fragment = []\<rparr>
     else case getScheme u of
       Inl msg \<Rightarrow> Inl msg
     | Inr (scheme, rest0) \<Rightarrow>
        (let scheme' = map toLower scheme;
             (rest, query) = cut (CHR ''?'') rest0;
             q = (case query of None \<Rightarrow> [] | Some x \<Rightarrow> x)
         in if take 1 rest \<noteq> ''/'' \<and> scheme' \<noteq> [] then
              Inr \<lparr>Scheme = scheme', Opaque = rest, Host = [], Path = [], RawQuery = q, Fragment = []\<rparr>
            else if take 1 rest \<noteq> ''/'' \<and>
                    (case cut (CHR '':'') rest of (_, None) \<Rightarrow> False
                       | (b, Some _) \<Rightarrow> CHR ''/'' \<notin> set b) then
              Inl ''first path segment in URL cannot contain colon''
            else
              (let (host, path) =
                     (if take 2 rest = ''//'' \<and> (scheme' \<noteq> [] \<or> take 3 rest \<noteq> ''///'')
                      then (case cut (CHR ''/'') (drop 2 rest) of
                              (a, None) \<Rightarrow> (afterLast (CHR ''@'') a, [])
                            | (a, Some p) \<Rightarrow> (afterLast (CHR ''@'') a, CHR ''/'' # p))
                      else ([], rest))
               in if \<not> escapesOK path then Inl ''invalid URL escape''
                  else Inr \<lparr>Scheme = scheme', Opaque = [], Host = host, Path = path,
                            RawQuery = q, Fragment = []\<rparr>)))"

definition url_Parse :: "string \<Rightarrow> string + URL" where
  "url_Parse rawurl =
    (let (u, frag) = cut (CHR ''#'') rawurl in
     case parse u of
       Inl msg \<Rightarrow> Inl (parseError u msg)
     | Inr url \<Rightarrow>
        (case frag of
           None \<Rightarrow> Inr url
         | Some f \<Rightarrow>
            if f = [] then Inr url
            else if \<not> escapesOK f then Inl (parseError rawurl ''invalid URL escape'')
            else Inr (url\<lparr>Fragment := f\<rparr>)))"

text \<open>\<open>validOptionalPort\<close>, \<open>splitHostPort\<close> and \<open>URL.Hostname\<close> of net/url.\<close>

definition validOptionalPort :: "string \<Rightarrow> bool" where
  "validOptionalPort port =
    (case port of [] \<Rightarrow> True | c # ds \<Rightarrow> c = CHR '':'' \<and> (\<forall>b \<in> set ds. isDigit b))"

definition splitHostPort :: "string \<Rightarrow> string \<times> string" where
  "splitHostPort hostPort =
    (let (host, port) =
           (case cut (CHR '':'') (rev hostPort) of
              (p, Some h) \<Rightarrow> (if validOptionalPort (CHR '':'' # rev p) then (rev h, rev p)
                               else (hostPort, []))
            | (_, None) \<Rightarrow> (hostPort, []))
     in if take 1 host = ''['' \<and> host \<noteq> [] \<and> last host = CHR '']''
        then (butlast (drop 1 host), port) else (host, port))"

definition Hostname :: "URL \<Rightarrow> string" where
  "Hostname u = fst (splitHostPort (Host u))"


section \<open>Provider configuration\<close>

type_synonym Alg = string

record Config =
  ClientId :: string
  ClientSecret :: ClientSecret
  Scopes :: "string list"
  Issuer :: string
  SupportedSigningAlgs :: "Alg list"
  RedirectUrl :: string
  Audiences :: "string list"
  ProviderCA :: string

text \<open>
  The map \<open>supportedAlgorithms\<close> is declared in a file that is not among the sources; its
  keys are the algorithms the doc comment of \<open>Validate\<close> lists as currently supported.
\<close>

definition supportedAlgorithms :: "Alg list" where
  "supportedAlgorithms =
     [''RS256'', ''RS384'', ''RS512'', ''ES256'', ''ES384'', ''ES512'', ''PS256'', ''PS384'', ''PS512'']"

definition StrListContains :: "string list \<Rightarrow> string \<Rightarrow> bool" where
  "StrListContains haystack needle = (needle \<in> set haystack)"

text \<open>The loop of \<open>Validate\<close> over the signing algorithms: the first unsupported one, if any.\<close>

fun checkAlgs :: "Alg list \<Rightarrow> error option" where
  "checkAlgs [] = None"
| "checkAlgs (a # as) =
     (if a \<notin> set supportedAlgorithms
      then Some (Wrapped (''Config.Validate: unsupported algorithm '' @ a @ '': '')
                   (Sentinel ErrInvalidParameter))
      else checkAlgs as)"

text \<open>
  \<open>Validate\<close> on a \<open>*Config\<close> (nil is \<open>None\<close>); \<open>Parse\<close> stands for \<open>url.Parse\<close> and
  returns the text of its error or the URL. Where the issuer does not parse, the format has
  three verbs and two operands, so \<open>%w\<close> has no operand; where the scheme is refused, the
  operand of \<open>%w\<close> is the nil \<open>err\<close> of the successful parse. In both cases \<open>fmt.Errorf\<close>
  yields an error that wraps nothing.
\<close>

definition Validate :: "(string \<Rightarrow> string + URL) \<Rightarrow> Config option \<Rightarrow> error option" where
  "Validate Parse cfg =
    (case cfg of
       None \<Rightarrow> Some (Wrapped ''Config.Validate: provider config is nil: '' (Sentinel ErrNilParameter))
     | Some c \<Rightarrow>
        if ClientId c = [] then
          Some (Wrapped ''Config.Validate: client id is empty: '' (Sentinel ErrInvalidParameter))
        else if ClientSecret c = [] then
          Some (Wrapped ''Config.Validate: client secret is empty: '' (Sentinel ErrInvalidParameter))
        else if Issuer c = [] then
          Some (Wrapped ''Config.Validate: discovery URL is empty: '' (Sentinel ErrInvalidParameter))
        else if RedirectUrl c = [] then
          Some (Wrapped ''Config.Validate: redirect URL is empty: '' (Sentinel ErrInvalidParameter))
        else
         (case Parse (Issuer c) of
            Inl err \<Rightarrow> Some (Plain (Issuer c @ '': issuer '' @ err @ '' is invalid: %!w(MISSING)''))
          | Inr u \<Rightarrow>
             if \<not> StrListContains [''https'', ''http''] (Scheme u) then
               Some (Plain (''Config.Validate: issuer '' @ Issuer c @
                            '' schema is not http or https: %!w(<nil>)''))
             else if length (SupportedSigningAlgs c) = 0 then
               Some (Wrapped ''Config.Validate: supported algorithms is empty: '' (Sentinel ErrInvalidParameter))
             else checkAlgs (SupportedSigningAlgs c)))"

text \<open>
  The options of a provider configuration. The fields \<open>withScopes\<close> and \<open>withAudiences\<close>
  and the options \<open>WithScopes\<close> and \<open>WithAudiences\<close> of the configuration carry a suffix
  or a prefix here, the plain names being those of the state's options.
\<close>

record providerConfigOptions =
  withScopesCfg :: "string list"
  withAudiencesCfg :: "string list"
  withProviderCA :: string

definition providerConfigDefaults :: providerConfigOptions where
  "providerConfigDefaults = \<lparr>withScopesCfg = [], withAudiencesCfg = [], withProviderCA = []\<rparr>"

datatype ConfigOption =
    ConfigWithScopes "string list"
  | ConfigWithAudiences "string list"
  | WithProviderCA string
  | OtherConfigOption

fun applyConfigOpt :: "ConfigOption \<Rightarrow> providerConfigOptions \<Rightarrow> providerConfigOptions" where
  "applyConfigOpt (ConfigWithScopes s) opts = opts\<lparr>withScopesCfg := s\<rparr>"
| "applyConfigOpt (ConfigWithAudiences a) opts = opts\<lparr>withAudiencesCfg := a\<rparr>"
| "applyConfigOpt (WithProviderCA c) opts = opts\<lparr>withProviderCA := c\<rparr>"
| "applyConfigOpt OtherConfigOption opts = opts"

fun ApplyConfigOpts :: "providerConfigOptions \<Rightarrow> ConfigOption list \<Rightarrow> providerConfigOptions" where
  "ApplyConfigOpts opts [] = opts"
| "ApplyConfigOpts opts (x # xs) = ApplyConfigOpts (applyConfigOpt x opts) xs"

definition getProviderConfigOpts :: "ConfigOption list \<Rightarrow> providerConfigOptions" where
  "getProviderConfigOpts opt = ApplyConfigOpts providerConfigDefaults opt"

definition NewConfig ::
  "(string \<Rightarrow> string + URL) \<Rightarrow> string \<Rightarrow> string \<Rightarrow> ClientSecret \<Rightarrow> Alg list \<Rightarrow> string \<Rightarrow>
     ConfigOption list \<Rightarrow> error + Config" where
  "NewConfig Parse issuer clientId clientSecret supported redirectUrl opt =
    (let opts = getProviderConfigOpts opt;
         c = \<lparr>ClientId = clientId, ClientSecret = clientSecret, Scopes = withScopesCfg opts,
              Issuer = issuer, SupportedSigningAlgs = supported, RedirectUrl = redirectUrl,
              Audiences = [], ProviderCA = withProviderCA opts\<rparr>
     in case Validate Parse (Some c) of
          Some err \<Rightarrow> Inl (Wrapped ''NewConfig: invalid provider config: '' err)
        | None \<Rightarrow> Inr c)"


section \<open>Provider\<close>

text \<open>
  What a test asserts with \<open>errors.Is(err, expected)\<close>: with \<open>expected\<close> nil the result has
  to be nil, otherwise the result has to be an error of the expected kind.
\<close>

definition testPasses :: "error option \<Rightarrow> kind option \<Rightarrow> bool" where
  "testPasses result expected =
    (case expected of
       None \<Rightarrow> result = None
     | Some k \<Rightarrow> (case result of None \<Rightarrow> False | Some e \<Rightarrow> errors_Is e (Sentinel k)))"

subsection \<open>Redirect URIs\<close>

text \<open>The table of \<open>TestProvider_validRedirect\<close>: candidate, allow-list, expected error.\<close>

definition validRedirect_tests :: "(string \<times> string list \<times> kind option) list" where
  "validRedirect_tests =
    [(''https://example.com'', [''https://example.com''], None),
     (''https://example.com:5000'', [''a'', ''b'', ''https://example.com:5000''], None),
     (''https://example.com/a/b/c'', [''a'', ''b'', ''https://example.com/a/b/c''], None),
     (''https://localhost:9000'', [''a'', ''b'', ''https://localhost:5000''], None),
     (''https://127.0.0.1:9000'', [''a'', ''b'', ''https://127.0.0.1:5000''], None),
     (''https://[::1]:9000'', [''a'', ''b'', ''https://[::1]:5000''], None),
     (''https://[::1]:9000/x/y?r=42'', [''a'', ''b'', ''https://[::1]:5000/x/y?r=42''], None),
     (''https://example.com'', [], None),
     (''http://example.com'', [''a'', ''b'', ''https://example.com''], Some ErrUnauthorizedRedirectURI),
     (''https://example.com:9000'', [''a'', ''b'', ''https://example.com:5000''], Some ErrUnauthorizedRedirectURI),
     (''https://[::2]:9000'', [''a'', ''b'', ''https://[::2]:5000''], Some ErrUnauthorizedRedirectURI),
     (''https://localhost:5000'', [''a'', ''b'', ''https://127.0.0.1:5000''], Some ErrUnauthorizedRedirectURI),
     (''https://localhost:5000'', [''a'', ''b'', ''https://127.0.0.1:5000''], Some ErrUnauthorizedRedirectURI),
     (''https://localhost:5000'', [''a'', ''b'', ''http://localhost:5000''], Some ErrUnauthorizedRedirectURI),
     (''https://[::1]:5000/x/y?r=42'', [''a'', ''b'', ''https://[::1]:5000/x/y?r=43''], Some ErrUnauthorizedRedirectURI),
     (''%%%%%%%%%%%'', [''%%%%%%%%%%%''], Some ErrInvalidParameter)]"

definition loopbackHosts :: "string list" where
  "loopbackHosts = [''localhost'', ''127.0.0.1'', ''::1'']"

definition dropPort :: "URL \<Rightarrow> URL" where
  "dropPort u = u\<lparr>Host := Hostname u\<rparr>"

definition matchesPortless :: "(string \<Rightarrow> string + URL) \<Rightarrow> URL \<Rightarrow> string \<Rightarrow> bool" where
  "matchesPortless Parse u a = (case Parse a of Inl _ \<Rightarrow> False | Inr v \<Rightarrow> dropPort v = dropPort u)"

text \<open>
  Modelled from the spec: \<open>Provider.validRedirect\<close> is not among the source files; only its
  test is. The spec (4.G.6) refuses an unparseable candidate as an invalid parameter, lets
  an empty allow-list permit any parseable candidate, and permits a candidate that is equal
  to an entry. The test's table moreover expects a candidate whose host is a loopback name
  to be permitted when an entry differs from it in the port alone (rows 4 to 7), which the
  spec denies; the model follows the table there. \<open>Parse\<close> stands for \<open>url.Parse\<close>.
\<close>

definition validRedirect :: "(string \<Rightarrow> string + URL) \<Rightarrow> string list \<Rightarrow> string \<Rightarrow> error option" where
  "validRedirect Parse allowed uri =
    (case Parse uri of
       Inl err \<Rightarrow> Some (Wrapped ''Provider.validRedirect: '' (Sentinel ErrInvalidParameter))
     | Inr u \<Rightarrow>
        if length allowed = 0 then None
        else if StrListContains allowed uri then None
        else if StrListContains loopbackHosts (Hostname u) \<and>
                (\<exists>a \<in> set allowed. matchesPortless Parse u a) then None
        else Some (Wrapped ''Provider.validRedirect: '' (Sentinel ErrUnauthorizedRedirectURI)))"

subsection \<open>Audience and authorized party\<close>



definition azpRequired :: "string \<Rightarrow> string list \<Rightarrow> bool" where
  "azpRequired clientID aud = (case aud of [a] \<Rightarrow> a \<noteq> clientID | _ \<Rightarrow> 1 < length aud)"

definition verifyAuthorizedParty :: "string \<Rightarrow> string list \<Rightarrow> string option \<Rightarrow> error option" where
  "verifyAuthorizedParty clientID aud azp =
    (case azp of
       None \<Rightarrow> if azpRequired clientID aud
               then Some (Wrapped ''Provider.VerifyIDToken: '' (Sentinel ErrInvalidAuthorizedParty))
               else None
     | Some a \<Rightarrow> if a \<noteq> clientID
                 then Some (Wrapped ''Provider.VerifyIDToken: '' (Sentinel ErrInvalidAuthorizedParty))
                 else None)"


text \<open>
  The rows of \<open>TestProvider_VerifyIDToken\<close> on the authorized party, with the client id
  \<open>test-client-id\<close> of the test: the claims \<open>aud\<close> and \<open>azp\<close> and the expected error. The
  rows are valid-ES256, missing-azp-multi-aud, invalid-azp-multi-aud, valid-azp-multi-aud,
  single-aud-missing-azp and single-aud-valid-azp.
\<close>

definition azp_tests :: "(string list \<times> string option \<times> kind option) list" where
  "azp_tests =
    [([''test-client-id''], None, None),
     ([''alice'', ''bob'', ''test-client-id''], None, Some ErrInvalidAuthorizedParty),
     ([''alice'', ''bob'', ''test-client-id''], Some ''bob'', Some ErrInvalidAuthorizedParty),
     ([''alice'', ''bob'', ''test-client-id''], Some ''test-client-id'', None),
     ([''alice''], None, Some ErrInvalidAuthorizedParty),
     ([''alice''], Some ''test-client-id'', None)]"

subsection \<open>Exchange\<close>

record Token =
  idToken :: string
  accessToken :: string
  refreshToken :: string
  expiry :: time

record Provider =
  config :: "Config option"

text \<open>
  Modelled from the spec: \<open>Provider.Exchange\<close> is not among the source files; only its test
  is. The preconditions are those of the spec (4.G.3), in its order: a configured provider,
  the returned state equal to the request's id, a request that has not expired
  (\<open>IsExpired\<close> of the source). \<open>tokenEndpoint\<close> stands for the rest of the protocol, the
  call of the token endpoint and the verification of what it returns.
\<close>

definition Exchange ::
  "(Config \<Rightarrow> St \<Rightarrow> string \<Rightarrow> time \<Rightarrow> error + Token) \<Rightarrow> Provider \<Rightarrow> St \<Rightarrow> string \<Rightarrow> string \<Rightarrow> time
     \<Rightarrow> error + Token" where
  "Exchange tokenEndpoint p r returnedState authCode wall =
    (case config p of
       None \<Rightarrow> Inl (Wrapped ''Provider.Exchange: '' (Sentinel ErrNilParameter))
     | Some c \<Rightarrow>
        if returnedState \<noteq> idSt r then
          Inl (Wrapped ''Provider.Exchange: '' (Sentinel ErrInvalidParameter))
        else if IsExpired r wall then
          Inl (Wrapped ''Provider.Exchange: '' (Sentinel ErrInvalidParameter))
        else tokenEndpoint c r authCode wall)"


section \<open>Properties of the state\<close>

subsection \<open>Options and construction\<close>

lemma scanArgs_iff: "scanArgs acc args = (acc \<or> IBool True \<in> set args)"
  by (induction args arbitrary: acc) (auto split: iface.splits)

lemma ApplyOpts_append: "ApplyOpts opts (xs @ ys) = ApplyOpts (ApplyOpts opts xs) ys"
  by (induction xs arbitrary: opts) simp_all

lemma ApplyOpts_no_implicit:
  "\<forall>a. WithImplicitFlow a \<notin> set xs \<Longrightarrow> withImplicitFlow (ApplyOpts opts xs) = withImplicitFlow opts"
proof (induction xs arbitrary: opts)
  case Nil
  then show ?case by simp
next
  case (Cons x xs)
  then show ?case by (cases x) auto
qed

lemma ApplyOpts_no_pkce:
  "\<forall>v. WithPKCE v \<notin> set xs \<Longrightarrow> withVerifier (ApplyOpts opts xs) = withVerifier opts"
proof (induction xs arbitrary: opts)
  case Nil
  then show ?case by simp
next
  case (Cons x xs)
  then show ?case by (cases x) auto
qed

lemma withImplicitFlow_getStOpts:
  "(withImplicitFlow (getStOpts opt) \<noteq> None) = (\<exists>a. WithImplicitFlow a \<in> set opt)"
proof
  assume "withImplicitFlow (getStOpts opt) \<noteq> None"
  show "\<exists>a. WithImplicitFlow a \<in> set opt"
  proof (rule ccontr)
    assume "\<not> (\<exists>a. WithImplicitFlow a \<in> set opt)"
    then have "\<forall>a. WithImplicitFlow a \<notin> set opt" by simp
    then have "withImplicitFlow (getStOpts opt) = None"
      by (simp add: getStOpts_def ApplyOpts_no_implicit stDefaults_def)
    with \<open>withImplicitFlow (getStOpts opt) \<noteq> None\<close> show False by simp
  qed
next
  assume "\<exists>a. WithImplicitFlow a \<in> set opt"
  then obtain a where "WithImplicitFlow a \<in> set opt" ..
  then obtain pre post where "opt = pre @ WithImplicitFlow a # post"
    by (auto simp: in_set_conv_decomp)
  moreover have "withImplicitFlow (ApplyOpts opts post) \<noteq> None" if "withImplicitFlow opts \<noteq> None" for opts
    using that
  proof (induction post arbitrary: opts)
    case Nil
    then show ?case by simp
  next
    case (Cons x xs)
    then show ?case by (cases x) auto
  qed
  ultimately show "withImplicitFlow (getStOpts opt) \<noteq> None"
    by (simp add: getStOpts_def ApplyOpts_append)
qed

lemma withVerifier_getStOpts_last:
  "opt = pre @ WithPKCE v # post \<Longrightarrow> \<forall>w. WithPKCE w \<notin> set post \<Longrightarrow> withVerifier (getStOpts opt) = v"
  by (simp add: getStOpts_def ApplyOpts_append ApplyOpts_no_pkce)

lemma withVerifier_getStOpts_none:
  "\<forall>w. WithPKCE w \<notin> set opt \<Longrightarrow> withVerifier (getStOpts opt) = None"
  by (simp add: getStOpts_def ApplyOpts_no_pkce stDefaults_def)


lemma NewState_withImplicit:
  "NewState expireIn redirect opt ent wall = Inr s \<Longrightarrow> withImplicit s = withImplicitFlow (getStOpts opt)"
  by (auto simp: NewState_def Let_def split: if_splits prod.splits sum.splits)

lemma NewState_ok:
  assumes "redirect \<noteq> []" and "ent = r1 # r2 # rest" and "0 < expireIn"
    and "\<not> (withVerifier (getStOpts opt) \<noteq> None \<and> withImplicitFlow (getStOpts opt) \<noteq> None)"
  shows "\<exists>s. NewState expireIn redirect opt ent wall = Inr s"
  using assms by (auto simp: NewState_def Let_def)

lemma NewState_bad:
  assumes "redirect \<noteq> []" and "ent = r1 # r2 # rest"
    and "expireIn \<le> 0 \<or> (withVerifier (getStOpts opt) \<noteq> None \<and> withImplicitFlow (getStOpts opt) \<noteq> None)"
  shows "\<exists>e. NewState expireIn redirect opt ent wall = Inl e \<and> errors_Is e (Sentinel ErrInvalidParameter)"
  using assms by (auto simp: NewState_def Let_def)

text \<open>
  With a non-empty redirect URL and an entropy source that cannot yield both identifiers,
  \<open>NewState\<close> returns the error of \<open>NewID\<close>, whatever \<open>expireIn\<close> and the options are.
\<close>

lemma NewState_entropy_exhausted:
  assumes "redirect \<noteq> []" and "length ent < 2"
  shows "\<exists>e. NewState expireIn redirect opt ent wall = Inl e \<and>
             \<not> errors_Is e (Sentinel ErrInvalidParameter)"
proof (cases ent)
  case Nil
  with assms show ?thesis by (simp add: NewState_def Let_def)
next
  case (Cons r rest)
  with assms have "rest = []" by simp
  with Cons assms show ?thesis by (simp add: NewState_def Let_def)
qed

lemma two_entries: "2 \<le> length ent \<Longrightarrow> \<exists>r1 r2 rest. ent = r1 # r2 # rest"
  by (cases ent; cases "tl ent") auto


subsection \<open>Parameter errors of \<open>NewState\<close>\<close>

text \<open>
  C2, as stated, asks for an invalid-parameter error whenever both \<open>WithImplicitFlow\<close> and
  \<open>WithPKCE\<close> are supplied. \<open>NewState\<close> tests the settings the options leave behind, not the
  options: \<open>WithPKCE\<close> with a nil verifier leaves no verifier, and the state is built.
\<close>

theorem NewState_nil_verifier_counterexample:
  "NewState (60 * Second) ''https://test-redirect'' [WithImplicitFlow [], WithPKCE None] [''r1'', ''r2''] 0 =
     Inr \<lparr>idSt = ''st_r2'', nonce = ''n_r1'', expiration = 60000000000,
          redirectURL = ''https://test-redirect'', scopes = [], audiences = [], nowFunc = None,
          withImplicit = Some \<lparr>withAccessToken = False\<rparr>, withVerifierSt = None\<rparr>"
  by (simp add: NewState_def getStOpts_def stDefaults_def now_def Add_def Second_def)


text \<open>
  C2 (amended): \<open>NewState\<close> returns an error of kind \<open>ErrInvalidParameter\<close>, and no state,
  if the redirect URL is empty; and, when the entropy source yields both identifiers, if
  \<open>expireIn\<close> is not positive or the options leave both an implicit-flow setting and a
  non-nil PKCE verifier. For every other input for which the entropy source yields both
  identifiers it returns a state and no error.
\<close>

theorem NewState_parameter_errors:
  "(redirect = [] \<longrightarrow>
      (\<exists>e. NewState expireIn redirect opt ent wall = Inl e \<and> errors_Is e (Sentinel ErrInvalidParameter))) \<and>
   (redirect \<noteq> [] \<and> 2 \<le> length ent \<and>
      (expireIn \<le> 0 \<or> (withImplicitFlow (getStOpts opt) \<noteq> None \<and> withVerifier (getStOpts opt) \<noteq> None)) \<longrightarrow>
      (\<exists>e. NewState expireIn redirect opt ent wall = Inl e \<and> errors_Is e (Sentinel ErrInvalidParameter))) \<and>
   (redirect \<noteq> [] \<and> 2 \<le> length ent \<and> 0 < expireIn \<and>
      \<not> (withImplicitFlow (getStOpts opt) \<noteq> None \<and> withVerifier (getStOpts opt) \<noteq> None) \<longrightarrow>
      (\<exists>s. NewState expireIn redirect opt ent wall = Inr s))"
proof (intro conjI impI)
  assume "redirect = []"
  then show "\<exists>e. NewState expireIn redirect opt ent wall = Inl e \<and> errors_Is e (Sentinel ErrInvalidParameter)"
    by (simp add: NewState_def Let_def)
next
  assume h: "redirect \<noteq> [] \<and> 2 \<le> length ent \<and>
      (expireIn \<le> 0 \<or> (withImplicitFlow (getStOpts opt) \<noteq> None \<and> withVerifier (getStOpts opt) \<noteq> None))"
  then obtain r1 r2 rest where "ent = r1 # r2 # rest" using two_entries by blast
  with h show "\<exists>e. NewState expireIn redirect opt ent wall = Inl e \<and> errors_Is e (Sentinel ErrInvalidParameter)"
    by (intro NewState_bad [of redirect ent r1 r2 rest]) auto
next
  assume h: "redirect \<noteq> [] \<and> 2 \<le> length ent \<and> 0 < expireIn \<and>
      \<not> (withImplicitFlow (getStOpts opt) \<noteq> None \<and> withVerifier (getStOpts opt) \<noteq> None)"
  then obtain r1 r2 rest where "ent = r1 # r2 # rest" using two_entries by blast
  with h show "\<exists>s. NewState expireIn redirect opt ent wall = Inr s"
    by (intro NewState_ok [of redirect ent r1 r2 rest]) auto
qed


theorem NewState_parameter_errors_witness:
  "(\<exists>e. NewState 5 [] [] [''r1'', ''r2''] 0 = Inl e \<and> errors_Is e (Sentinel ErrInvalidParameter)) \<and>
   (\<exists>e. NewState 0 ''https://test-redirect'' [] [''r1'', ''r2''] 0 = Inl e \<and>
         errors_Is e (Sentinel ErrInvalidParameter)) \<and>
   (\<exists>e. NewState 5 ''https://test-redirect''
           [WithImplicitFlow [], WithPKCE (Some \<lparr>verifier = ''v'', challenge = ''c'', challengeMethod = ''S256''\<rparr>)]
           [''r1'', ''r2''] 0 = Inl e \<and> errors_Is e (Sentinel ErrInvalidParameter)) \<and>
   (\<exists>s. NewState 5 ''https://test-redirect'' [WithImplicitFlow [IBool True]] [''r1'', ''r2''] 0 = Inr s)"
  using NewState_parameter_errors [of "[]" 5 "[]" "[''r1'', ''r2'']" 0]
    NewState_parameter_errors [of "''https://test-redirect''" 0 "[]" "[''r1'', ''r2'']" 0]
    NewState_parameter_errors [of "''https://test-redirect''" 5
      "[WithImplicitFlow [], WithPKCE (Some \<lparr>verifier = ''v'', challenge = ''c'', challengeMethod = ''S256''\<rparr>)]"
      "[''r1'', ''r2'']" 0]
    NewState_parameter_errors [of "''https://test-redirect''" 5 "[WithImplicitFlow [IBool True]]"
      "[''r1'', ''r2'']" 0]
  by (simp add: getStOpts_def stDefaults_def)


subsection \<open>Invariants of a constructed state\<close>





subsection \<open>Expiry\<close>

text \<open>
  C4, as stated, has \<open>IsExpired\<close> return true as soon as \<open>now + 1s \<ge> expiration\<close>. The
  comparison of the source is \<open>Before\<close>, which is strict: a state built with an expiry of
  one second is not expired at the instant of its construction, where
  \<open>now + 1s = expiration\<close>.
\<close>

theorem IsExpired_boundary_counterexample:
  "NewState Second ''https://test-redirect'' [] [''r1'', ''r2''] 0 =
     Inr \<lparr>idSt = ''st_r2'', nonce = ''n_r1'', expiration = 1000000000,
          redirectURL = ''https://test-redirect'', scopes = [], audiences = [], nowFunc = None,
          withImplicit = None, withVerifierSt = None\<rparr> \<and>
   now \<lparr>idSt = ''st_r2'', nonce = ''n_r1'', expiration = 1000000000,
          redirectURL = ''https://test-redirect'', scopes = [], audiences = [], nowFunc = None,
          withImplicit = None, withVerifierSt = None\<rparr> 0 + 1 * Second \<ge> 1000000000 \<and>
   \<not> IsExpired \<lparr>idSt = ''st_r2'', nonce = ''n_r1'', expiration = 1000000000,
          redirectURL = ''https://test-redirect'', scopes = [], audiences = [], nowFunc = None,
          withImplicit = None, withVerifierSt = None\<rparr> 0"
  by (simp add: NewState_def getStOpts_def stDefaults_def now_def Add_def Second_def IsExpired_def
      StateExpirySkew_def Before_def)


text \<open>
  C4 (amended): at a call where the state's \<open>now()\<close> agrees with the wall clock, as it does
  when no \<open>nowFunc\<close> was supplied, \<open>IsExpired\<close> returns true exactly when the expiration is
  strictly earlier than \<open>now + 1s\<close>.
\<close>

theorem IsExpired_strict:
  assumes "now s wall = wall"
  shows "IsExpired s wall = (expiration s < now s wall + 1 * Second)"
  using assms by (simp add: IsExpired_def Before_def Add_def StateExpirySkew_def)


theorem IsExpired_strict_witness:
  "now \<lparr>idSt = ''st_r2'', nonce = ''n_r1'', expiration = 1000000000,
          redirectURL = ''https://test-redirect'', scopes = [], audiences = [], nowFunc = None,
          withImplicit = None, withVerifierSt = None\<rparr> 1 = 1 \<and>
   IsExpired \<lparr>idSt = ''st_r2'', nonce = ''n_r1'', expiration = 1000000000,
          redirectURL = ''https://test-redirect'', scopes = [], audiences = [], nowFunc = None,
          withImplicit = None, withVerifierSt = None\<rparr> 1"
  using IsExpired_strict [of "\<lparr>idSt = ''st_r2'', nonce = ''n_r1'', expiration = 1000000000,
          redirectURL = ''https://test-redirect'', scopes = [], audiences = [], nowFunc = None,
          withImplicit = None, withVerifierSt = None\<rparr>" 1]
  by (simp add: now_def Second_def)

text \<open>
  \<open>IsExpired\<close> does not consult \<open>nowFunc\<close>: \<open>NewState\<close> computes the expiration from
  \<open>s.now()\<close>, but the comparison reads \<open>time.Now()\<close>.
\<close>

lemma IsExpired_ignores_nowFunc: "IsExpired (s\<lparr>nowFunc := f\<rparr>) wall = IsExpired s wall"
  by (simp add: IsExpired_def)


subsection \<open>Implicit flow\<close>

text \<open>
  C10: for a state built by \<open>NewState\<close>, \<open>ImplicitFlow\<close> returns \<open>(false, false)\<close> if no
  \<open>WithImplicitFlow\<close> option was given, and otherwise \<open>(true, b)\<close>, where \<open>b\<close> is true exactly
  when one of the arguments of the (last) \<open>WithImplicitFlow\<close> is the boolean \<open>true\<close>;
  arguments that are not booleans and the boolean \<open>false\<close> are ignored.
\<close>

theorem ImplicitFlow_reports_option:
  assumes "NewState expireIn redirect opt ent wall = Inr s"
  shows "((\<forall>a. WithImplicitFlow a \<notin> set opt) \<longrightarrow> ImplicitFlow s = (False, False)) \<and>
         (\<forall>pre args post. opt = pre @ WithImplicitFlow args # post \<and> (\<forall>a. WithImplicitFlow a \<notin> set post)
            \<longrightarrow> ImplicitFlow s = (True, IBool True \<in> set args))"
proof (intro conjI allI impI)
  assume "\<forall>a. WithImplicitFlow a \<notin> set opt"
  then have "withImplicitFlow (getStOpts opt) = None"
    by (simp add: getStOpts_def ApplyOpts_no_implicit stDefaults_def)
  with NewState_withImplicit [OF assms] show "ImplicitFlow s = (False, False)"
    by (simp add: ImplicitFlow_def)
next
  fix pre args post
  assume h: "opt = pre @ WithImplicitFlow args # post \<and> (\<forall>a. WithImplicitFlow a \<notin> set post)"
  then have "withImplicitFlow (getStOpts opt) = Some \<lparr>withAccessToken = scanArgs False args\<rparr>"
    by (simp add: getStOpts_def ApplyOpts_append ApplyOpts_no_implicit)
  with NewState_withImplicit [OF assms] show "ImplicitFlow s = (True, IBool True \<in> set args)"
    by (simp add: ImplicitFlow_def scanArgs_iff)
qed


theorem ImplicitFlow_reports_option_witness:
  "NewState 5 ''https://test-redirect'' [WithScopes [''email'']] [''r1'', ''r2''] 0 =
     Inr \<lparr>idSt = ''st_r2'', nonce = ''n_r1'', expiration = 5,
          redirectURL = ''https://test-redirect'', scopes = [''email''], audiences = [], nowFunc = None,
          withImplicit = None, withVerifierSt = None\<rparr> \<and>
   ImplicitFlow \<lparr>idSt = ''st_r2'', nonce = ''n_r1'', expiration = 5,
          redirectURL = ''https://test-redirect'', scopes = [''email''], audiences = [], nowFunc = None,
          withImplicit = None, withVerifierSt = None\<rparr> = (False, False) \<and>
   NewState 5 ''https://test-redirect'' [WithImplicitFlow [IString ''x'', IBool False, IBool True], OtherOption]
       [''r1'', ''r2''] 0 =
     Inr \<lparr>idSt = ''st_r2'', nonce = ''n_r1'', expiration = 5,
          redirectURL = ''https://test-redirect'', scopes = [], audiences = [], nowFunc = None,
          withImplicit = Some \<lparr>withAccessToken = True\<rparr>, withVerifierSt = None\<rparr> \<and>
   ImplicitFlow \<lparr>idSt = ''st_r2'', nonce = ''n_r1'', expiration = 5,
          redirectURL = ''https://test-redirect'', scopes = [], audiences = [], nowFunc = None,
          withImplicit = Some \<lparr>withAccessToken = True\<rparr>, withVerifierSt = None\<rparr> = (True, True)"
proof -
  let ?s1 = "\<lparr>idSt = ''st_r2'', nonce = ''n_r1'', expiration = 5,
          redirectURL = ''https://test-redirect'', scopes = [''email''], audiences = [], nowFunc = None,
          withImplicit = None, withVerifierSt = None\<rparr>"
  let ?s2 = "\<lparr>idSt = ''st_r2'', nonce = ''n_r1'', expiration = 5,
          redirectURL = ''https://test-redirect'', scopes = [], audiences = [], nowFunc = None,
          withImplicit = Some \<lparr>withAccessToken = True\<rparr>, withVerifierSt = None\<rparr>"
  have h1: "NewState 5 ''https://test-redirect'' [WithScopes [''email'']] [''r1'', ''r2''] 0 = Inr ?s1"
    by (simp add: NewState_def getStOpts_def stDefaults_def now_def Add_def)
  have h2: "NewState 5 ''https://test-redirect''
              [WithImplicitFlow [IString ''x'', IBool False, IBool True], OtherOption] [''r1'', ''r2''] 0 = Inr ?s2"
    by (simp add: NewState_def getStOpts_def stDefaults_def now_def Add_def)
  have n1: "\<forall>a. WithImplicitFlow a \<notin> set [WithScopes [''email'']]" by simp
  have n2: "[WithImplicitFlow [IString ''x'', IBool False, IBool True], OtherOption] =
              [] @ WithImplicitFlow [IString ''x'', IBool False, IBool True] # [OtherOption] \<and>
            (\<forall>a. WithImplicitFlow a \<notin> set [OtherOption])" by simp
  from ImplicitFlow_reports_option [OF h1] n1 have r1: "ImplicitFlow ?s1 = (False, False)" by blast
  from ImplicitFlow_reports_option [OF h2] n2
  have r2: "ImplicitFlow ?s2 = (True, IBool True \<in> set [IString ''x'', IBool False, IBool True])" by blast
  from h1 h2 r1 r2 show ?thesis by simp
qed


section \<open>Properties of the client secret\<close>

lemma json_Marshal_Redacted:
  "json_Marshal RedactedClientSecret = Inr (CHR 0x22 # ''[REDACTED: client secret]'' @ [CHR 0x22])"
  by (simp add: json_Marshal_def RedactedClientSecret_def jsonEscapeChar_def)

text \<open>
  C5: for any two client secrets, \<open>String()\<close> gives the same text and \<open>MarshalJSON()\<close> the
  same bytes, namely the redacted literal and its JSON encoding. The renderings are
  constants: nothing of the secret flows into them.
\<close>

theorem ClientSecret_redacted:
  "ClientSecret_String s1 = ClientSecret_String s2 \<and>
   ClientSecret_MarshalJSON s1 = ClientSecret_MarshalJSON s2 \<and>
   ClientSecret_String s1 = ''[REDACTED: client secret]'' \<and>
   ClientSecret_MarshalJSON s1 = Inr (CHR 0x22 # ''[REDACTED: client secret]'' @ [CHR 0x22])"
  by (simp add: ClientSecret_String_def ClientSecret_MarshalJSON_def json_Marshal_Redacted)
     (simp add: RedactedClientSecret_def)

theorem ClientSecret_redacted_witness:
  "ClientSecret_String ''hunter2'' = ClientSecret_String ''test-client-secret'' \<and>
   ClientSecret_MarshalJSON ''hunter2'' = ClientSecret_MarshalJSON ''test-client-secret'' \<and>
   ClientSecret_String ''hunter2'' = ''[REDACTED: client secret]'' \<and>
   ClientSecret_MarshalJSON ''hunter2'' = Inr (CHR 0x22 # ''[REDACTED: client secret]'' @ [CHR 0x22])"
  by (rule ClientSecret_redacted)

section \<open>Properties of the configuration\<close>


lemma url_Parse_ftp:
  "url_Parse ''ftp://idp.test'' =
     Inr \<lparr>Scheme = ''ftp'', Opaque = [], Host = ''idp.test'', Path = [], RawQuery = [], Fragment = []\<rparr>"
  by code_simp


lemma NewConfig_accepts_iff:
  "(\<exists>c. NewConfig Parse issuer clientId clientSecret supported redirectUrl opt = Inr c) =
   (Validate Parse
      (Some \<lparr>ClientId = clientId, ClientSecret = clientSecret,
             Scopes = withScopesCfg (getProviderConfigOpts opt), Issuer = issuer,
             SupportedSigningAlgs = supported, RedirectUrl = redirectUrl, Audiences = [],
             ProviderCA = withProviderCA (getProviderConfigOpts opt)\<rparr>) = None)"
  by (simp add: NewConfig_def Let_def split: option.splits)

subsection \<open>What \<open>Validate\<close> checks of the issuer\<close>




subsection \<open>The error for a refused scheme\<close>

text \<open>
  C9 asks that the error for an issuer that parses but has another scheme than http or
  https be recognised by \<open>errors.Is\<close> as \<open>ErrInvalidParameter\<close>. In a configuration that
  passes the checks before it, the error \<open>Validate\<close> returns carries the operation name in
  its text but wraps nothing, so that \<open>errors.Is\<close> does not find \<open>ErrInvalidParameter\<close>
  in it: the operand given to \<open>%w\<close> is the nil error of the successful parse.
\<close>

theorem Validate_scheme_error_wraps_nothing:
  assumes "ClientId c \<noteq> []" and "ClientSecret c \<noteq> []" and "Issuer c \<noteq> []" and "RedirectUrl c \<noteq> []"
    and "Parse (Issuer c) = Inr u" and "Scheme u \<noteq> ''https''" and "Scheme u \<noteq> ''http''"
  shows "Validate Parse (Some c) =
           Some (Plain (''Config.Validate: issuer '' @ Issuer c @ '' schema is not http or https: %!w(<nil>)'')) \<and>
         \<not> errors_Is (Plain (''Config.Validate: issuer '' @ Issuer c @
                               '' schema is not http or https: %!w(<nil>)''))
               (Sentinel ErrInvalidParameter)"
  using assms by (simp add: Validate_def StrListContains_def)

theorem Validate_scheme_error_wraps_nothing_witness:
  "url_Parse ''ftp://idp.test'' =
     Inr \<lparr>Scheme = ''ftp'', Opaque = [], Host = ''idp.test'', Path = [], RawQuery = [], Fragment = []\<rparr> \<and>
   Validate url_Parse
     (Some \<lparr>ClientId = ''test-client-id'', ClientSecret = ''test-client-secret'', Scopes = [],
            Issuer = ''ftp://idp.test'', SupportedSigningAlgs = [''ES256''],
            RedirectUrl = ''https://test-redirect'', Audiences = [], ProviderCA = []\<rparr>) =
     Some (Plain ''Config.Validate: issuer ftp://idp.test schema is not http or https: %!w(<nil>)'') \<and>
   \<not> errors_Is (Plain ''Config.Validate: issuer ftp://idp.test schema is not http or https: %!w(<nil>)'')
         (Sentinel ErrInvalidParameter)"
  using Validate_scheme_error_wraps_nothing
    [of "\<lparr>ClientId = ''test-client-id'', ClientSecret = ''test-client-secret'', Scopes = [],
            Issuer = ''ftp://idp.test'', SupportedSigningAlgs = [''ES256''],
            RedirectUrl = ''https://test-redirect'', Audiences = [], ProviderCA = []\<rparr>" url_Parse
        "\<lparr>Scheme = ''ftp'', Opaque = [], Host = ''idp.test'', Path = [], RawQuery = [], Fragment = []\<rparr>"]
  by (simp add: url_Parse_ftp)

section \<open>Properties of the provider\<close>

subsection \<open>Redirect URIs\<close>

text \<open>The model of \<open>validRedirect\<close> passes every row of the test's table.\<close>

lemma validRedirect_tests_pass:
  "list_all (\<lambda>(u, l, e). testPasses (validRedirect url_Parse l u) e) validRedirect_tests"
  by code_simp



lemma validRedirect_localhost_is_not_127:
  "validRedirect url_Parse [''a'', ''b'', ''https://127.0.0.1:5000''] ''https://localhost:5000'' =
     Some (Wrapped ''Provider.validRedirect: '' (Sentinel ErrUnauthorizedRedirectURI))"
  by code_simp





subsection \<open>Authorized party\<close>


lemma azp_tests_pass:
  "list_all (\<lambda>(aud, azp, e). testPasses (verifyAuthorizedParty ''test-client-id'' aud azp) e) azp_tests"
  by (simp add: azp_tests_def testPasses_def verifyAuthorizedParty_def azpRequired_def)



subsection \<open>Exchange\<close>

text \<open>
  C7: for a configured provider, \<open>Exchange\<close> returns an error of kind
  \<open>ErrInvalidParameter\<close>, and no token, when the returned state differs from the request's
  id, and when the request has expired at the time of the call.
\<close>

theorem Exchange_rejects:
  assumes "config p = Some c" and "returnedState \<noteq> idSt r \<or> IsExpired r wall"
  shows "\<exists>e. Exchange tokenEndpoint p r returnedState authCode wall = Inl e \<and>
             errors_Is e (Sentinel ErrInvalidParameter)"
  using assms by (auto simp: Exchange_def)

theorem Exchange_rejects_witness:
  "config \<lparr>config = Some \<lparr>ClientId = ''test-client-id'', ClientSecret = ''test-client-secret'', Scopes = [],
            Issuer = ''https://idp.test'', SupportedSigningAlgs = [''ES256''],
            RedirectUrl = ''https://test-redirect'', Audiences = [], ProviderCA = []\<rparr>\<rparr> \<noteq> None \<and>
   IsExpired \<lparr>idSt = ''st_r2'', nonce = ''n_r1'', expiration = 1,
          redirectURL = ''https://test-redirect'', scopes = [], audiences = [], nowFunc = None,
          withImplicit = None, withVerifierSt = None\<rparr> 5 \<and>
   (\<exists>e. Exchange (\<lambda>c r code w. Inr \<lparr>idToken = ''id'', accessToken = ''access'', refreshToken = [], expiry = 60\<rparr>)
          \<lparr>config = Some \<lparr>ClientId = ''test-client-id'', ClientSecret = ''test-client-secret'', Scopes = [],
            Issuer = ''https://idp.test'', SupportedSigningAlgs = [''ES256''],
            RedirectUrl = ''https://test-redirect'', Audiences = [], ProviderCA = []\<rparr>\<rparr>
          \<lparr>idSt = ''st_r2'', nonce = ''n_r1'', expiration = 1,
          redirectURL = ''https://test-redirect'', scopes = [], audiences = [], nowFunc = None,
          withImplicit = None, withVerifierSt = None\<rparr> ''st_r2'' ''test-code'' 5 = Inl e \<and>
        errors_Is e (Sentinel ErrInvalidParameter)) \<and>
   (\<exists>e. Exchange (\<lambda>c r code w. Inr \<lparr>idToken = ''id'', accessToken = ''access'', refreshToken = [], expiry = 60\<rparr>)
          \<lparr>config = Some \<lparr>ClientId = ''test-client-id'', ClientSecret = ''test-client-secret'', Scopes = [],
            Issuer = ''https://idp.test'', SupportedSigningAlgs = [''ES256''],
            RedirectUrl = ''https://test-redirect'', Audiences = [], ProviderCA = []\<rparr>\<rparr>
          \<lparr>idSt = ''st_r2'', nonce = ''n_r1'', expiration = 10000000000,
          redirectURL = ''https://test-redirect'', scopes = [], audiences = [], nowFunc = None,
          withImplicit = None, withVerifierSt = None\<rparr> ''not-equal'' ''test-code'' 5 = Inl e \<and>
        errors_Is e (Sentinel ErrInvalidParameter))"
proof -
  let ?c = "\<lparr>ClientId = ''test-client-id'', ClientSecret = ''test-client-secret'', Scopes = [],
            Issuer = ''https://idp.test'', SupportedSigningAlgs = [''ES256''],
            RedirectUrl = ''https://test-redirect'', Audiences = [], ProviderCA = []\<rparr>"
  let ?p = "\<lparr>config = Some ?c\<rparr>"
  let ?expired = "\<lparr>idSt = ''st_r2'', nonce = ''n_r1'', expiration = 1,
          redirectURL = ''https://test-redirect'', scopes = [], audiences = [], nowFunc = None,
          withImplicit = None, withVerifierSt = None\<rparr>"
  let ?valid = "\<lparr>idSt = ''st_r2'', nonce = ''n_r1'', expiration = 10000000000,
          redirectURL = ''https://test-redirect'', scopes = [], audiences = [], nowFunc = None,
          withImplicit = None, withVerifierSt = None\<rparr>"
  have c: "config ?p = Some ?c" by simp
  have e: "IsExpired ?expired 5"
    by (simp add: IsExpired_def Before_def Add_def StateExpirySkew_def Second_def)
  then have h1: "''st_r2'' \<noteq> idSt ?expired \<or> IsExpired ?expired 5" by blast
  have h2: "''not-equal'' \<noteq> idSt ?valid \<or> IsExpired ?valid 5" by simp
  from Exchange_rejects [OF c h1] Exchange_rejects [OF c h2] c e show ?thesis by simp
qed

end
